theory Spec2Isabelle
  imports Complex_Main "HOL-Library.Sublist"
begin

section \<open>Data model\<close>

text \<open>
  The catalog row of \<^verbatim>\<open>model Product\<close> (Prisma schema, table \<^verbatim>\<open>products\<close>).
  Optional columns are options, \<^verbatim>\<open>Int\<close> is \<open>int\<close>, \<^verbatim>\<open>Float\<close> is \<open>real\<close>,
  timestamps are natural numbers read from a clock.
\<close>

record product =
  prod_id :: string
  name :: string
  description :: "string option"
  sku :: string
  price :: real
  quantity :: int
  category :: "string option"
  brand :: "string option"
  imageUrl :: "string option"
  pineconeId :: "string option"
  hasEmbedding :: bool
  lastEmbedded :: "nat option"
  isActive :: bool
  tags :: "string list"
  searchKeywords :: "string option"
  createdAt :: nat
  updatedAt :: nat

text \<open>The argument of \<^verbatim>\<open>createProduct\<close>: the columns a caller may supply.\<close>

record product_data =
  d_name :: string
  d_description :: "string option"
  d_sku :: string
  d_price :: real
  d_quantity :: int
  d_category :: "string option"
  d_brand :: "string option"
  d_imageUrl :: "string option"
  d_tags :: "string list option"
  d_searchKeywords :: "string option"

text \<open>The remote calls, and what a call can throw.\<close>

datatype ext_call =
    DbCreateProduct | DbUpdateProduct | DbGetProduct | DbGetAllProducts
  | DbMarkProductEmbedded | DbMarkProductNotEmbedded | DbUpdateInventory
  | DbCreateEmbeddingJob | DbUpdateEmbeddingJob
  | DbGetProductStats
  | PineconeUpsert | PineconeDelete | PineconeQuery
  | PineconeInitializeIndex | PineconeGetIndexStats
  | OllamaEmbeddings | OllamaEnsureModelsExist

datatype error =
    ServiceError ext_call
  | RecordNotFound
  | UniqueConstraint
  | EmptyEmbedding
  | TypeError

datatype JobStatus = PENDING | RUNNING | COMPLETED | FAILED

datatype JobType = SINGLE_EMBED | BULK_EMBED | REMOVE_EMBED | UPDATE_EMBED

record embedding_job =
  job_id :: string
  status :: JobStatus
  job_productId :: "string option"
  jobType :: JobType
  errorMessage :: "error option"
  totalItems :: "nat option"
  processedItems :: nat
  completedAt :: "nat option"

text \<open>\<^verbatim>\<open>interface ProductMetadata\<close> and one stored vector of the index.\<close>

record product_metadata =
  m_id :: string
  m_name :: string
  m_description :: "string option"
  m_price :: real
  m_quantity :: int
  m_category :: "string option"
  m_brand :: "string option"
  m_sku :: string
  m_isActive :: bool

type_synonym embedding = "real list"

record vector_entry =
  v_values :: embedding
  v_metadata :: "product_metadata option"

text \<open>
  The state the services share: the two catalog tables and the vector index, the
  latter as an association list from vector id to entry (order is insertion order).
\<close>

record world =
  products :: "product list"
  jobs :: "embedding_job list"
  index :: "(string \<times> vector_entry) list"

section \<open>Environment: failures, remote models, time\<close>

text \<open>
  What the code cannot decide by itself is a parameter:
  \<^item> \<open>fails c k\<close>: the remote call \<open>c\<close> on key \<open>k\<close> throws (service unreachable, rate limit);
  \<^item> \<open>embeddings\<close>: the embedding model, \<open>None\<close> when the provider call throws;
  \<^item> \<open>llm_intent\<close>: the chat model's answer to the intent prompt, parsed as JSON,
    \<open>None\<close> when the call throws or the answer does not parse;
  \<^item> \<open>score\<close>: the similarity metric of the index;
  \<^item> \<open>lowStockThreshold\<close>: \<^verbatim>\<open>parseInt(process.env.LOW_STOCK_THRESHOLD || '5')\<close>,
    \<open>None\<close> for \<^verbatim>\<open>NaN\<close>;
  \<^item> \<open>price_text\<close>: how a template literal prints a number;
  \<^item> \<open>now\<close>: the clock read by \<^verbatim>\<open>new Date()\<close>;
  \<^item> \<open>fresh\<close>: the generated identifiers (\<^verbatim>\<open>cuid()\<close>, \<^verbatim>\<open>product_${Date.now()}_...\<close>),
    from a seed.
\<close>

record price_range =
  pr_min :: "real option"
  pr_max :: "real option"

text \<open>The object \<^verbatim>\<open>extractSearchIntent\<close> returns (the fields the callers read).\<close>

record search_intent =
  si_category :: "string option"
  si_priceRange :: "price_range option"
  si_brand :: "string option"
  si_searchTerms :: "string option"

record env =
  fails :: "ext_call \<Rightarrow> string \<Rightarrow> bool"
  embeddings :: "string \<Rightarrow> embedding option"
  llm_intent :: "string \<Rightarrow> search_intent option"
  score :: "embedding \<Rightarrow> embedding \<Rightarrow> real"
  lowStockThreshold :: "int option"
  price_text :: "real \<Rightarrow> string"
  now :: nat
  fresh :: "string \<Rightarrow> string"

text \<open>
  An \<^verbatim>\<open>async\<close> function is a state transformer that returns a value or throws;
  the state reached before a throw is kept, as the writes already made are.
\<close>

type_synonym 'a io = "world \<Rightarrow> (error + 'a) \<times> world"

definition ret :: "'a \<Rightarrow> 'a io" where
  "ret x w = (Inr x, w)"

definition throw :: "error \<Rightarrow> 'a io" where
  "throw e w = (Inl e, w)"

definition bindM :: "'a io \<Rightarrow> ('a \<Rightarrow> 'b io) \<Rightarrow> 'b io" where
  "bindM m f w = (case m w of (Inl e, w') \<Rightarrow> (Inl e, w') | (Inr x, w') \<Rightarrow> f x w')"

definition catch :: "'a io \<Rightarrow> (error \<Rightarrow> 'a io) \<Rightarrow> 'a io" where
  "catch m h w = (case m w of (Inl e, w') \<Rightarrow> h e w' | (Inr x, w') \<Rightarrow> (Inr x, w'))"

text \<open>JavaScript truthiness of an optional string: present and not empty.\<close>

fun truthy :: "string option \<Rightarrow> bool" where
  "truthy None = False"
| "truthy (Some s) = (s \<noteq> [])"

text \<open>\<^verbatim>\<open>a || b\<close> on an optional string and a string.\<close>

fun or_else :: "string option \<Rightarrow> string \<Rightarrow> string" where
  "or_else None d = d"
| "or_else (Some s) d = (if s = [] then d else s)"

section \<open>Catalog store (database.ts)\<close>

definition findUnique :: "string \<Rightarrow> product list \<Rightarrow> product option" where
  "findUnique i rows = find (\<lambda>p. prod_id p = i) rows"

definition update_row :: "string \<Rightarrow> (product \<Rightarrow> product) \<Rightarrow> product list \<Rightarrow> product list" where
  "update_row i f rows = map (\<lambda>p. if prod_id p = i then f p else p) rows"

text \<open>
  \<^verbatim>\<open>prisma.product.update({ where: { id }, data })\<close>: throws when the call fails or no
  row has the id; otherwise writes the row, with \<^verbatim>\<open>@updatedAt\<close> stamped, and returns it.
\<close>

definition prisma_update :: "env \<Rightarrow> ext_call \<Rightarrow> string \<Rightarrow> (product \<Rightarrow> product) \<Rightarrow> product io" where
  "prisma_update e c i f w =
     (if fails e c i then (Inl (ServiceError c), w)
      else case findUnique i (products w) of
        None \<Rightarrow> (Inl RecordNotFound, w)
      | Some p \<Rightarrow>
          (Inr ((f p)\<lparr>updatedAt := now e\<rparr>),
           w\<lparr>products := update_row i (\<lambda>p. (f p)\<lparr>updatedAt := now e\<rparr>) (products w)\<rparr>))"

text \<open>
  \<^verbatim>\<open>createProduct\<close>: the row takes the supplied columns, a generated \<^verbatim>\<open>pineconeId\<close>, and
  the schema defaults for everything else: \<^verbatim>\<open>hasEmbedding = false\<close>,
  \<^verbatim>\<open>isActive = true\<close>, no \<^verbatim>\<open>lastEmbedded\<close>. The unique columns (\<^verbatim>\<open>id\<close>, \<^verbatim>\<open>sku\<close>,
  \<^verbatim>\<open>pineconeId\<close>) reject a duplicate.
\<close>

definition createProduct :: "env \<Rightarrow> product_data \<Rightarrow> product io" where
  "createProduct e d w =
     (if fails e DbCreateProduct (d_sku d) then (Inl (ServiceError DbCreateProduct), w)
      else
        let p = \<lparr> prod_id = fresh e (''id_'' @ d_sku d),
                  name = d_name d,
                  description = d_description d,
                  sku = d_sku d,
                  price = d_price d,
                  quantity = d_quantity d,
                  category = d_category d,
                  brand = d_brand d,
                  imageUrl = d_imageUrl d,
                  pineconeId = Some (''product_'' @ fresh e (''pc_'' @ d_sku d)),
                  hasEmbedding = False,
                  lastEmbedded = None,
                  isActive = True,
                  tags = (case d_tags d of None \<Rightarrow> [] | Some ts \<Rightarrow> ts),
                  searchKeywords = d_searchKeywords d,
                  createdAt = now e,
                  updatedAt = now e \<rparr>
        in if (\<exists>r \<in> set (products w).
                 prod_id r = prod_id p \<or> sku r = sku p \<or> pineconeId r = pineconeId p)
           then (Inl UniqueConstraint, w)
           else (Inr p, w\<lparr>products := products w @ [p]\<rparr>))"

definition updateProduct :: "env \<Rightarrow> string \<Rightarrow> (product \<Rightarrow> product) \<Rightarrow> product io" where
  "updateProduct e i f = prisma_update e DbUpdateProduct i f"

definition getProduct :: "env \<Rightarrow> string \<Rightarrow> product option io" where
  "getProduct e i w =
     (if fails e DbGetProduct i then (Inl (ServiceError DbGetProduct), w)
      else (Inr (findUnique i (products w)), w))"

text \<open>
  \<^verbatim>\<open>getAllProducts\<close> with its defaults resolved by the caller: the filter on
  \<^verbatim>\<open>isActive\<close> is always set (the default is \<^verbatim>\<open>true\<close>), \<^verbatim>\<open>hasStock\<close> adds
  \<^verbatim>\<open>quantity > 0\<close>, a truthy category adds equality on it; rows come newest update first.
\<close>

definition getAllProducts ::
  "env \<Rightarrow> bool \<Rightarrow> bool \<Rightarrow> string option \<Rightarrow> nat \<Rightarrow> nat \<Rightarrow> product list io" where
  "getAllProducts e active hasStock cat limit offset w =
     (if fails e DbGetAllProducts [] then (Inl (ServiceError DbGetAllProducts), w)
      else
        (Inr (take limit (drop offset (rev (sort_key updatedAt
                (filter (\<lambda>p. isActive p = active
                              \<and> (hasStock \<longrightarrow> 0 < quantity p)
                              \<and> (truthy cat \<longrightarrow> category p = cat))
                        (products w)))))), w))"

definition markProductEmbedded :: "env \<Rightarrow> string \<Rightarrow> string option \<Rightarrow> product io" where
  "markProductEmbedded e i pc =
     prisma_update e DbMarkProductEmbedded i
       (\<lambda>p. if truthy pc
             then p\<lparr>hasEmbedding := True, lastEmbedded := Some (now e), pineconeId := pc\<rparr>
             else p\<lparr>hasEmbedding := True, lastEmbedded := Some (now e)\<rparr>)"

definition markProductNotEmbedded :: "env \<Rightarrow> string \<Rightarrow> product io" where
  "markProductNotEmbedded e i =
     prisma_update e DbMarkProductNotEmbedded i
       (\<lambda>p. p\<lparr>hasEmbedding := False, lastEmbedded := None\<rparr>)"

definition updateInventory :: "env \<Rightarrow> string \<Rightarrow> int \<Rightarrow> product io" where
  "updateInventory e i q =
     prisma_update e DbUpdateInventory i (\<lambda>p. p\<lparr>quantity := q, isActive := (0 < q)\<rparr>)"

section \<open>Vector index adapter (pinecone-service.ts): writes\<close>

fun index_upsert :: "string \<Rightarrow> vector_entry \<Rightarrow> (string \<times> vector_entry) list \<Rightarrow> (string \<times> vector_entry) list" where
  "index_upsert k v [] = [(k, v)]"
| "index_upsert k v ((k', v') # xs) =
     (if k' = k then (k, v) # xs else (k', v') # index_upsert k v xs)"

definition index_delete :: "string \<Rightarrow> (string \<times> vector_entry) list \<Rightarrow> (string \<times> vector_entry) list" where
  "index_delete k xs = filter (\<lambda>kv. fst kv \<noteq> k) xs"

text \<open>
  \<^verbatim>\<open>upsertProduct\<close> builds the \<^verbatim>\<open>ProductMetadata\<close> object and then upserts
  \<^verbatim>\<open>{ id: product.pineconeId || product.id, values: embedding, // metadata }\<close>:
  the metadata line is commented out, so the stored vector carries none.
\<close>

definition upsertProduct :: "env \<Rightarrow> product \<Rightarrow> embedding \<Rightarrow> bool io" where
  "upsertProduct e p emb w =
     (let metadata = \<lparr> m_id = prod_id p, m_name = name p,
                        m_description = Some (or_else (description p) []),
                        m_price = price p, m_quantity = quantity p,
                        m_category = Some (or_else (category p) []),
                        m_brand = Some (or_else (brand p) []),
                        m_sku = sku p, m_isActive = isActive p \<rparr>;
          key = or_else (pineconeId p) (prod_id p)
      in if fails e PineconeUpsert key then (Inl (ServiceError PineconeUpsert), w)
         else (Inr True,
               w\<lparr>index := index_upsert key \<lparr> v_values = emb, v_metadata = None \<rparr> (index w)\<rparr>))"

definition deleteProduct :: "env \<Rightarrow> string \<Rightarrow> bool io" where
  "deleteProduct e k w =
     (if fails e PineconeDelete k then (Inl (ServiceError PineconeDelete), w)
      else (Inr True, w\<lparr>index := index_delete k (index w)\<rparr>))"

section \<open>Embedding provider adapter (ollama-service.ts)\<close>

text \<open>
  \<^verbatim>\<open>generateEmbedding\<close>: the provider is called on the prepared text and an absent or
  empty vector is an error. The text preparation (trimming, whitespace and character
  normalisation, lower-casing) is a pure function of the text and is part of the
  parameter \<open>embeddings\<close>.
\<close>

definition generateEmbedding :: "env \<Rightarrow> string \<Rightarrow> embedding io" where
  "generateEmbedding e text w =
     (case embeddings e text of
        None \<Rightarrow> (Inl (ServiceError OllamaEmbeddings), w)
      | Some v \<Rightarrow> if v = [] then (Inl EmptyEmbedding, w) else (Inr v, w))"

section \<open>Inventory tool (tools/inventory-management)\<close>

record inventory_update_input =
  iu_productId :: string
  iu_quantity :: int
  iu_updateEmbedding :: bool

datatype embedding_action = Added | Removed | Updated | NoAction

record status_change =
  sc_wasActive :: bool
  sc_isActive :: bool
  sc_embeddingAction :: embedding_action

datatype update_error = ProductNotFound | Thrown error

record inventory_update_result =
  r_success :: bool
  r_productId :: string
  r_previousQuantity :: int
  r_newQuantity :: int
  r_statusChange :: "status_change option"
  r_error :: "update_error option"

fun opt_list :: "string option \<Rightarrow> string list" where
  "opt_list None = []"
| "opt_list (Some s) = [s]"

text \<open>\<^verbatim>\<open>Array.prototype.join(' ')\<close>.\<close>

fun join_space :: "string list \<Rightarrow> string" where
  "join_space [] = []"
| "join_space [x] = x"
| "join_space (x # y # ys) = x @ '' '' @ join_space (y # ys)"

text \<open>\<^verbatim>\<open>createProductEmbeddingText\<close> of the inventory tool; \<^verbatim>\<open>filter(Boolean)\<close> drops
  the absent and the empty parts.\<close>

definition createProductEmbeddingText :: "product \<Rightarrow> string" where
  "createProductEmbeddingText p =
     join_space (filter (\<lambda>s. s \<noteq> [])
       ([name p] @ opt_list (description p) @ opt_list (category p) @ opt_list (brand p)
        @ tags p @ opt_list (searchKeywords p)))"

text \<open>\<^verbatim>\<open>q < threshold\<close>, false when the threshold is \<^verbatim>\<open>NaN\<close>.\<close>

fun below_threshold :: "int \<Rightarrow> int option \<Rightarrow> bool" where
  "below_threshold q None = False"
| "below_threshold q (Some t) = (q < t)"

text \<open>
  The inner \<^verbatim>\<open>try\<close> block of \<^verbatim>\<open>executeInventoryUpdate\<close>. The variable
  \<^verbatim>\<open>embeddingAction\<close> is assigned after the last awaited call of a branch, so a branch
  that throws leaves it at \<^verbatim>\<open>'none'\<close>; the value returned here is the one assigned.
\<close>

definition syncEmbedding ::
  "env \<Rightarrow> inventory_update_input \<Rightarrow> product \<Rightarrow> product \<Rightarrow> embedding_action io" where
  "syncEmbedding e inp currentProduct updatedProduct =
     (let wasActive = isActive currentProduct;
          nowActive = isActive updatedProduct;
          isLowStock = below_threshold (iu_quantity inp) (lowStockThreshold e);
          isOutOfStock = (iu_quantity inp \<le> 0)
      in
      if isOutOfStock \<or> isLowStock then
        (case pineconeId currentProduct of
           Some pc \<Rightarrow>
             if pc \<noteq> [] \<and> hasEmbedding currentProduct then
               bindM (deleteProduct e pc) (\<lambda>_.
               bindM (markProductNotEmbedded e (iu_productId inp)) (\<lambda>_.
               ret Removed))
             else ret NoAction
         | None \<Rightarrow> ret NoAction)
      else if \<not> wasActive \<and> nowActive then
        bindM (generateEmbedding e (createProductEmbeddingText updatedProduct)) (\<lambda>emb.
        bindM (upsertProduct e updatedProduct emb) (\<lambda>_.
        bindM (markProductEmbedded e (iu_productId inp) (pineconeId updatedProduct)) (\<lambda>_.
        ret Added)))
      else if nowActive \<and> hasEmbedding currentProduct then
        bindM (generateEmbedding e (createProductEmbeddingText updatedProduct)) (\<lambda>emb.
        bindM (upsertProduct e updatedProduct emb) (\<lambda>_.
        bindM (markProductEmbedded e (iu_productId inp) (pineconeId updatedProduct)) (\<lambda>_.
        ret Updated)))
      else ret NoAction)"

definition executeInventoryUpdate :: "env \<Rightarrow> inventory_update_input \<Rightarrow> inventory_update_result io" where
  "executeInventoryUpdate e inp =
     catch
       (bindM (getProduct e (iu_productId inp)) (\<lambda>found.
          case found of
            None \<Rightarrow>
              ret \<lparr> r_success = False, r_productId = iu_productId inp,
                    r_previousQuantity = 0, r_newQuantity = iu_quantity inp,
                    r_statusChange = None, r_error = Some ProductNotFound \<rparr>
          | Some currentProduct \<Rightarrow>
              bindM (updateInventory e (iu_productId inp) (iu_quantity inp)) (\<lambda>updatedProduct.
              bindM (if iu_updateEmbedding inp
                     then catch (syncEmbedding e inp currentProduct updatedProduct)
                                (\<lambda>embeddingError. ret NoAction)
                     else ret NoAction) (\<lambda>embeddingAction.
              ret \<lparr> r_success = True, r_productId = iu_productId inp,
                    r_previousQuantity = quantity currentProduct,
                    r_newQuantity = iu_quantity inp,
                    r_statusChange = Some \<lparr> sc_wasActive = isActive currentProduct,
                                            sc_isActive = isActive updatedProduct,
                                            sc_embeddingAction = embeddingAction \<rparr>,
                    r_error = None \<rparr>))))
       (\<lambda>err.
          ret \<lparr> r_success = False, r_productId = iu_productId inp,
                r_previousQuantity = 0, r_newQuantity = iu_quantity inp,
                r_statusChange = None, r_error = Some (Thrown err) \<rparr>)"

section \<open>Vector index adapter (pinecone-service.ts): search\<close>

text \<open>
  A metadata filter, \<^verbatim>\<open>Record<string, any>\<close> restricted to the keys and operators the
  code writes: \<^verbatim>\<open>isActive: {$eq}\<close>, \<^verbatim>\<open>quantity: {$gt}\<close>, \<^verbatim>\<open>category: {$eq}\<close>,
  \<^verbatim>\<open>brand: {$eq}\<close>, \<^verbatim>\<open>price: {$gte?, $lte?}\<close>. An absent key is \<open>None\<close>.
\<close>

record query_filter =
  f_isActive :: "bool option"
  f_quantity :: "int option"
  f_category :: "string option"
  f_brand :: "string option"
  f_price :: "price_range option"

record query_match =
  qm_id :: string
  qm_score :: real
  qm_metadata :: "product_metadata option"

record search_result =
  sr_id :: string
  sr_score :: real
  sr_metadata :: "product_metadata option"

definition empty_filter :: query_filter where
  "empty_filter = \<lparr> f_isActive = None, f_quantity = None, f_category = None,
                     f_brand = None, f_price = None \<rparr>"

text \<open>\<^verbatim>\<open>{ ...defaultFilter, ...filter }\<close>: a key of \<open>filter\<close> replaces the same key of the default.\<close>

fun spread :: "'a option \<Rightarrow> 'a option \<Rightarrow> 'a option" where
  "spread d None = d"
| "spread d (Some x) = Some x"

definition merge_filter :: "query_filter \<Rightarrow> query_filter \<Rightarrow> query_filter" where
  "merge_filter d f =
     \<lparr> f_isActive = spread (f_isActive d) (f_isActive f),
       f_quantity = spread (f_quantity d) (f_quantity f),
       f_category = spread (f_category d) (f_category f),
       f_brand = spread (f_brand d) (f_brand f),
       f_price = spread (f_price d) (f_price f) \<rparr>"

text \<open>
  Modelled from the spec: the vector index is a remote service, reached through the
  Pinecone client; its query is not code of this repository. Section 6 gives the
  contract: \<^verbatim>\<open>query(vector, {topK, filter}) \<rightarrow> [{id, score, metadata}]\<close>, the filter language
  having equality and range predicates on \<^verbatim>\<open>isActive\<close>, \<^verbatim>\<open>quantity\<close>, \<^verbatim>\<open>category\<close>,
  \<^verbatim>\<open>brand\<close>, \<^verbatim>\<open>price\<close>. A predicate on a key holds of a vector only if the vector's
  metadata has the key and the value satisfies it; the matches are the \<open>topK\<close> best by
  score, best first.
\<close>

fun holds_on :: "('a \<Rightarrow> 'b \<Rightarrow> bool) \<Rightarrow> 'a option \<Rightarrow> 'b option \<Rightarrow> bool" where
  "holds_on P None v = True"
| "holds_on P (Some c) None = False"
| "holds_on P (Some c) (Some x) = P c x"

definition price_in_range :: "price_range \<Rightarrow> real \<Rightarrow> bool" where
  "price_in_range r x =
     ((case pr_min r of None \<Rightarrow> True | Some lo \<Rightarrow> lo \<le> x)
      \<and> (case pr_max r of None \<Rightarrow> True | Some hi \<Rightarrow> x \<le> hi))"

definition metadata_matches :: "query_filter \<Rightarrow> product_metadata option \<Rightarrow> bool" where
  "metadata_matches f md =
     (holds_on (\<lambda>c x. x = c) (f_isActive f) (map_option m_isActive md)
      \<and> holds_on (\<lambda>c x. c < x) (f_quantity f) (map_option m_quantity md)
      \<and> holds_on (\<lambda>c x. x = c) (f_category f) (Option.bind md m_category)
      \<and> holds_on (\<lambda>c x. x = c) (f_brand f) (Option.bind md m_brand)
      \<and> holds_on price_in_range (f_price f) (map_option m_price md))"

definition index_query ::
  "env \<Rightarrow> (string \<times> vector_entry) list \<Rightarrow> embedding \<Rightarrow> nat \<Rightarrow> query_filter \<Rightarrow> query_match list" where
  "index_query e idx vec topK f =
     take topK
       (sort_key (\<lambda>m. - qm_score m)
          (map (\<lambda>kv. \<lparr> qm_id = fst kv, qm_score = score e vec (v_values (snd kv)),
                        qm_metadata = v_metadata (snd kv) \<rparr>)
               (filter (\<lambda>kv. metadata_matches f (v_metadata (snd kv))) idx)))"

text \<open>
  \<^verbatim>\<open>searchProducts\<close>, its option defaults (\<^verbatim>\<open>topK = 10\<close>, \<^verbatim>\<open>minScore = 0.7\<close>,
  \<^verbatim>\<open>filter = {}\<close>) resolved by \<open>search_options\<close>.
\<close>

record search_options =
  so_topK :: "nat option"
  so_minScore :: "real option"
  so_filter :: "query_filter option"

definition defaultFilter :: query_filter where
  "defaultFilter = empty_filter\<lparr> f_isActive := Some True, f_quantity := Some 0 \<rparr>"

definition searchProducts :: "env \<Rightarrow> embedding \<Rightarrow> search_options \<Rightarrow> search_result list io" where
  "searchProducts e queryEmbedding options w =
     (let topK = (case so_topK options of None \<Rightarrow> 10 | Some k \<Rightarrow> k);
          minScore = (case so_minScore options of None \<Rightarrow> 7 / 10 | Some m \<Rightarrow> m);
          filt = (case so_filter options of None \<Rightarrow> empty_filter | Some f \<Rightarrow> f);
          queryFilter = merge_filter defaultFilter filt
      in if fails e PineconeQuery [] then (Inl (ServiceError PineconeQuery), w)
         else (Inr (map (\<lambda>m. \<lparr> sr_id = qm_id m, sr_score = qm_score m,
                                 sr_metadata = qm_metadata m \<rparr>)
                        (filter (\<lambda>m. minScore \<le> qm_score m)
                                (index_query e (index w) queryEmbedding topK queryFilter))), w))"

section \<open>Search tool (tools/product-search)\<close>

record product_search_input =
  ps_query :: string
  ps_maxResults :: nat
  ps_category :: "string option"
  ps_minPrice :: "real option"
  ps_maxPrice :: "real option"
  ps_brand :: "string option"
  ps_inStockOnly :: bool

record found_product =
  fp_id :: string
  fp_name :: string
  fp_description :: string
  fp_price :: real
  fp_quantity :: int
  fp_category :: "string option"
  fp_brand :: "string option"
  fp_sku :: string
  fp_relevanceScore :: real

text \<open>The result envelope; the presentation fields \<^verbatim>\<open>filters\<close> and \<^verbatim>\<open>suggestions\<close>
  (computed after the products, by code that catches its own errors) are left out.\<close>

record product_search_result =
  psr_success :: bool
  psr_products :: "found_product list"
  psr_totalFound :: nat
  psr_searchTerms :: string
  psr_error :: "error option"

text \<open>\<^verbatim>\<open>extractSearchIntent\<close>: any failure falls back to the query itself as search terms.\<close>

definition extractSearchIntent :: "env \<Rightarrow> string \<Rightarrow> search_intent" where
  "extractSearchIntent e userQuery =
     (case llm_intent e userQuery of
        None \<Rightarrow> \<lparr> si_category = None, si_priceRange = None, si_brand = None,
                  si_searchTerms = Some userQuery \<rparr>
      | Some si \<Rightarrow> si)"

text \<open>JavaScript truthiness of an optional number: present and not zero.\<close>

fun truthy_num :: "real option \<Rightarrow> bool" where
  "truthy_num None = False"
| "truthy_num (Some x) = (x \<noteq> 0)"

text \<open>The \<^verbatim>\<open>$gte\<close> (or \<^verbatim>\<open>$lte\<close>) bound: the explicit one when defined, else a truthy inferred one.\<close>

definition price_bound :: "real option \<Rightarrow> real option \<Rightarrow> real option" where
  "price_bound explicit inferred =
     (case explicit of Some x \<Rightarrow> Some x
      | None \<Rightarrow> if truthy_num inferred then inferred else None)"

definition buildSearchFilters :: "product_search_input \<Rightarrow> search_intent \<Rightarrow> query_filter" where
  "buildSearchFilters inp si =
     \<lparr> f_isActive = (if ps_inStockOnly inp then Some True else None),
       f_quantity = (if ps_inStockOnly inp then Some 0 else None),
       f_category = (if truthy (ps_category inp) \<or> truthy (si_category si)
                     then Some (or_else (ps_category inp) (or_else (si_category si) []))
                     else None),
       f_brand = (if truthy (ps_brand inp) \<or> truthy (si_brand si)
                  then Some (or_else (ps_brand inp) (or_else (si_brand si) []))
                  else None),
       f_price = (if ps_minPrice inp \<noteq> None \<or> ps_maxPrice inp \<noteq> None \<or> si_priceRange si \<noteq> None
                  then let lo = price_bound (ps_minPrice inp) (Option.bind (si_priceRange si) pr_min);
                           hi = price_bound (ps_maxPrice inp) (Option.bind (si_priceRange si) pr_max)
                       in if lo \<noteq> None \<or> hi \<noteq> None then Some \<lparr> pr_min = lo, pr_max = hi \<rparr> else None
                  else None) \<rparr>"

text \<open>\<^verbatim>\<open>Math.round(score * 100) / 100\<close>.\<close>

definition round2 :: "real \<Rightarrow> real" where
  "round2 x = of_int \<lfloor>x * 100 + 1 / 2\<rfloor> / 100"

text \<open>Formatting one result reads \<^verbatim>\<open>result.metadata.id\<close>: a match without metadata is a
  \<^verbatim>\<open>TypeError\<close>.\<close>

definition format_result :: "search_result \<Rightarrow> error + found_product" where
  "format_result r =
     (case sr_metadata r of
        None \<Rightarrow> Inl TypeError
      | Some md \<Rightarrow>
          Inr \<lparr> fp_id = m_id md, fp_name = m_name md,
                fp_description = or_else (m_description md) [],
                fp_price = m_price md, fp_quantity = m_quantity md,
                fp_category = m_category md, fp_brand = m_brand md,
                fp_sku = m_sku md, fp_relevanceScore = round2 (sr_score r) \<rparr>)"

fun format_results :: "search_result list \<Rightarrow> error + found_product list" where
  "format_results [] = Inr []"
| "format_results (r # rs) =
     (case format_result r of
        Inl err \<Rightarrow> Inl err
      | Inr p \<Rightarrow> (case format_results rs of Inl err \<Rightarrow> Inl err | Inr ps \<Rightarrow> Inr (p # ps)))"

definition lift :: "error + 'a \<Rightarrow> 'a io" where
  "lift r w = (r, w)"

definition executeProductSearch :: "env \<Rightarrow> product_search_input \<Rightarrow> product_search_result io" where
  "executeProductSearch e inp =
     catch
       (let searchIntent = extractSearchIntent e (ps_query inp);
            terms = or_else (si_searchTerms searchIntent) (ps_query inp)
        in bindM (generateEmbedding e terms) (\<lambda>searchEmbedding.
           bindM (searchProducts e searchEmbedding
                    \<lparr> so_topK = Some (ps_maxResults inp), so_minScore = Some (6 / 10),
                      so_filter = Some (buildSearchFilters inp searchIntent) \<rparr>) (\<lambda>searchResults.
           bindM (lift (format_results searchResults)) (\<lambda>found.
           ret \<lparr> psr_success = True, psr_products = found, psr_totalFound = length found,
                 psr_searchTerms = terms, psr_error = None \<rparr>))))
       (\<lambda>err.
          ret \<lparr> psr_success = False, psr_products = [], psr_totalFound = 0,
                psr_searchTerms = ps_query inp, psr_error = Some err \<rparr>)"

section \<open>Conversational router (agents/ecommerce-agent.ts)\<close>

text \<open>\<^verbatim>\<open>toLowerCase\<close> on the ASCII letters, and \<^verbatim>\<open>String.prototype.includes\<close>.\<close>

definition to_lower_char :: "char \<Rightarrow> char" where
  "to_lower_char c =
     (case map_of (zip ''ABCDEFGHIJKLMNOPQRSTUVWXYZ'' ''abcdefghijklmnopqrstuvwxyz'') c of
        Some l \<Rightarrow> l
      | None \<Rightarrow> c)"

definition toLowerCase :: "string \<Rightarrow> string" where
  "toLowerCase s = map to_lower_char s"

fun includes_str :: "string \<Rightarrow> string \<Rightarrow> bool" where
  "includes_str [] k = (k = [])"
| "includes_str (c # cs) k = (prefix k (c # cs) \<or> includes_str cs k)"

definition search_keywords :: "string list" where
  "search_keywords =
     [''find'', ''search'', ''looking for'', ''need'', ''want'', ''show me'', ''do you have'',
      ''available'', ''sell'', ''products'', ''items'', ''buy'', ''purchase'', ''browse'']"

definition inventory_keywords :: "string list" where
  "inventory_keywords =
     [''in stock'', ''available'', ''inventory'', ''quantity'', ''how many'',
      ''stock level'', ''out of stock'', ''sold out'']"

definition requiresProductSearch :: "string \<Rightarrow> bool" where
  "requiresProductSearch message =
     list_ex (\<lambda>keyword. includes_str (toLowerCase message) keyword) search_keywords"

definition requiresInventoryCheck :: "string \<Rightarrow> bool" where
  "requiresInventoryCheck message =
     list_ex (\<lambda>keyword. includes_str (toLowerCase message) keyword) inventory_keywords"

datatype role = User | Assistant

text \<open>
  The three handlers answer with a text and catch their own errors; what they answer
  (tool output, model output, formatting) is a parameter. \<^verbatim>\<open>processMessage\<close> threads the
  conversation history, trimmed to the last 16 entries once it exceeds 20.
\<close>

record handlers =
  handleProductSearch :: "string \<Rightarrow> string"
  handleInventoryCheck :: "string \<Rightarrow> string"
  handleGeneralChat :: "string \<Rightarrow> string"

definition processMessage ::
  "handlers \<Rightarrow> string \<Rightarrow> (role \<times> string) list \<Rightarrow> string \<times> (role \<times> string) list" where
  "processMessage h userMessage conversationHistory =
     (let history1 = conversationHistory @ [(User, userMessage)];
          needsProductSearch = requiresProductSearch userMessage;
          needsInventoryCheck = requiresInventoryCheck userMessage;
          response = (if needsProductSearch then handleProductSearch h userMessage
                      else if needsInventoryCheck then handleInventoryCheck h userMessage
                      else handleGeneralChat h userMessage);
          history2 = history1 @ [(Assistant, response)]
      in (response,
          if 20 < length history2 then drop (length history2 - 16) history2 else history2))"

section \<open>Bulk embedding job (scripts/full-embeddings.ts)\<close>

record EmbeddingProgress =
  pg_total :: nat
  pg_processed :: nat
  pg_successful :: nat
  pg_failed :: nat
  pg_skipped :: nat
  pg_startTime :: nat

text \<open>\<^verbatim>\<open>String.prototype.trim\<close>.\<close>

definition is_space :: "char \<Rightarrow> bool" where
  "is_space c = (c \<in> set [CHR '' '', CHR 0x09, CHR 0x0A, CHR 0x0B, CHR 0x0C, CHR 0x0D, CHR 0xA0])"

definition trim :: "string \<Rightarrow> string" where
  "trim s = rev (dropWhile is_space (rev (dropWhile is_space s)))"

text \<open>\<^verbatim>\<open>createProductEmbeddingText\<close> of the script: absent parts become empty, blank
  parts are dropped, SKU and price are appended.\<close>

definition createProductEmbeddingText_script :: "env \<Rightarrow> product \<Rightarrow> string" where
  "createProductEmbeddingText_script e p =
     trim (join_space (filter (\<lambda>part. part \<noteq> [] \<and> 0 < length (trim part))
       ([name p, or_else (description p) [], or_else (category p) [], or_else (brand p) []]
        @ tags p
        @ [or_else (searchKeywords p) [], ''SKU: '' @ sku p,
           ''Price: $'' @ price_text e (price p)])))"

definition createEmbeddingJob :: "env \<Rightarrow> JobType \<Rightarrow> string option \<Rightarrow> nat option \<Rightarrow> embedding_job io" where
  "createEmbeddingJob e jt pid n w =
     (if fails e DbCreateEmbeddingJob [] then (Inl (ServiceError DbCreateEmbeddingJob), w)
      else
        let j = \<lparr> job_id = fresh e ''job'', status = PENDING, job_productId = pid,
                  jobType = jt, errorMessage = None, totalItems = n,
                  processedItems = 0, completedAt = None \<rparr>
        in if (\<exists>r \<in> set (jobs w). job_id r = job_id j) then (Inl UniqueConstraint, w)
           else (Inr j, w\<lparr>jobs := jobs w @ [j]\<rparr>))"

definition updateEmbeddingJob :: "env \<Rightarrow> string \<Rightarrow> (embedding_job \<Rightarrow> embedding_job) \<Rightarrow> embedding_job io" where
  "updateEmbeddingJob e i f w =
     (if fails e DbUpdateEmbeddingJob i then (Inl (ServiceError DbUpdateEmbeddingJob), w)
      else case find (\<lambda>j. job_id j = i) (jobs w) of
        None \<Rightarrow> (Inl RecordNotFound, w)
      | Some j \<Rightarrow> (Inr (f j), w\<lparr>jobs := map (\<lambda>j. if job_id j = i then f j else j) (jobs w)\<rparr>))"

text \<open>A remote call whose answer is only logged.\<close>

definition ext_step :: "env \<Rightarrow> ext_call \<Rightarrow> unit io" where
  "ext_step e c w = (if fails e c [] then (Inl (ServiceError c), w) else (Inr (), w))"

text \<open>The \<^verbatim>\<open>try\<close> block of \<^verbatim>\<open>processProductEmbedding\<close>: each path ends by incrementing
  one counter and returning \<^verbatim>\<open>true\<close>.\<close>

definition tryProcessProduct ::
  "env \<Rightarrow> product \<Rightarrow> EmbeddingProgress \<Rightarrow> (bool \<times> EmbeddingProgress) io" where
  "tryProcessProduct e product progress =
     (if \<not> isActive product \<or> quantity product \<le> 0
      then ret (True, progress\<lparr>pg_skipped := pg_skipped progress + 1\<rparr>)
      else
        let embeddingText = createProductEmbeddingText_script e product in
        if embeddingText = [] \<or> length (trim embeddingText) < 10
        then ret (True, progress\<lparr>pg_skipped := pg_skipped progress + 1\<rparr>)
        else
          bindM (generateEmbedding e embeddingText) (\<lambda>embedding.
          if embedding = [] then throw EmptyEmbedding
          else
            bindM (if \<not> truthy (pineconeId product)
                   then bindM (updateProduct e (prod_id product)
                                 (\<lambda>p. p\<lparr>pineconeId :=
                                        Some (''product_'' @ fresh e (prod_id product))\<rparr>))
                          (\<lambda>_. ret (product\<lparr>pineconeId :=
                                        Some (''product_'' @ fresh e (prod_id product))\<rparr>))
                   else ret product) (\<lambda>product1.
            bindM (upsertProduct e product1 embedding) (\<lambda>_.
            bindM (markProductEmbedded e (prod_id product1) (pineconeId product1)) (\<lambda>_.
            ret (True, progress\<lparr>pg_successful := pg_successful progress + 1\<rparr>))))))"

text \<open>\<^verbatim>\<open>processProductEmbedding\<close>: anything thrown in the block counts as a failure.\<close>

definition processProductEmbedding ::
  "env \<Rightarrow> product \<Rightarrow> EmbeddingProgress \<Rightarrow> (bool \<times> EmbeddingProgress) io" where
  "processProductEmbedding e product progress =
     catch (tryProcessProduct e product progress)
       (\<lambda>err. ret (False, progress\<lparr>pg_failed := pg_failed progress + 1\<rparr>))"

text \<open>
  The inner loop over one batch: process the product, count it, and write the job's
  progress at every tenth product. The outer loop takes the batches of 5.
\<close>

fun process_batch ::
  "env \<Rightarrow> string \<Rightarrow> product list \<Rightarrow> EmbeddingProgress \<Rightarrow> EmbeddingProgress io" where
  "process_batch e jobId [] progress w = (Inr progress, w)"
| "process_batch e jobId (product # rest) progress w =
     (case processProductEmbedding e product progress w of
        (Inl err, w1) \<Rightarrow> (Inl err, w1)
      | (Inr (ok, progress1), w1) \<Rightarrow>
          if (pg_processed progress1 + 1) mod 10 = 0
          then (case updateEmbeddingJob e jobId
                       (\<lambda>j. j\<lparr>processedItems := pg_processed progress1 + 1\<rparr>) w1 of
                  (Inl err, w2) \<Rightarrow> (Inl err, w2)
                | (Inr j, w2) \<Rightarrow>
                    process_batch e jobId rest
                      (progress1\<lparr>pg_processed := pg_processed progress1 + 1\<rparr>) w2)
          else process_batch e jobId rest
                 (progress1\<lparr>pg_processed := pg_processed progress1 + 1\<rparr>) w1)"

function process_batches ::
  "env \<Rightarrow> string \<Rightarrow> product list \<Rightarrow> nat \<Rightarrow> EmbeddingProgress \<Rightarrow> EmbeddingProgress io" where
  "process_batches e jobId allProducts i progress w =
     (if i < length allProducts
      then (case process_batch e jobId (take 5 (drop i allProducts)) progress w of
              (Inl err, w1) \<Rightarrow> (Inl err, w1)
            | (Inr progress1, w1) \<Rightarrow> process_batches e jobId allProducts (i + 5) progress1 w1)
      else (Inr progress, w))"
  by pat_completeness auto
termination
  by (relation "measure (\<lambda>(e, jobId, allProducts, i, progress, w). length allProducts - i)") auto

text \<open>The part of \<^verbatim>\<open>generateFullEmbeddings\<close> that runs once the job row exists.\<close>

definition run_job :: "env \<Rightarrow> string \<Rightarrow> product list \<Rightarrow> EmbeddingProgress option io" where
  "run_job e jobId allProducts =
     bindM (updateEmbeddingJob e jobId (\<lambda>j. j\<lparr>status := RUNNING\<rparr>)) (\<lambda>_.
     bindM (process_batches e jobId allProducts 0
              \<lparr> pg_total = length allProducts, pg_processed = 0, pg_successful = 0,
                pg_failed = 0, pg_skipped = 0, pg_startTime = now e \<rparr>) (\<lambda>progress.
     bindM (ext_step e PineconeGetIndexStats) (\<lambda>_.
     bindM (ext_step e DbGetProductStats) (\<lambda>_.
     bindM (updateEmbeddingJob e jobId
              (\<lambda>j. j\<lparr>status := COMPLETED, processedItems := pg_processed progress,
                      completedAt := Some (now e)\<rparr>)) (\<lambda>_.
     ret (Some progress))))))"

text \<open>
  \<^verbatim>\<open>generateFullEmbeddings\<close>. The start-up calls (\<^verbatim>\<open>ensureModelsExist\<close>,
  \<^verbatim>\<open>initializeIndex\<close> with its wait for a new index, \<^verbatim>\<open>getIndexStats\<close>) are remote steps
  that answer or throw. The result is the progress record of a completed run, \<open>None\<close>
  when there was no product to process; a throw is the fatal abort, after the job row
  was marked \<^verbatim>\<open>FAILED\<close> when one exists.
\<close>

definition generateFullEmbeddings :: "env \<Rightarrow> EmbeddingProgress option io" where
  "generateFullEmbeddings e =
     bindM (ext_step e OllamaEnsureModelsExist) (\<lambda>_.
     bindM (ext_step e PineconeInitializeIndex) (\<lambda>_.
     bindM (ext_step e PineconeGetIndexStats) (\<lambda>_.
     bindM (getAllProducts e True False None 10000 0) (\<lambda>allProducts.
     if allProducts = [] then ret None
     else
       bindM (createEmbeddingJob e BULK_EMBED None (Some (length allProducts))) (\<lambda>embeddingJob.
       catch (run_job e (job_id embeddingJob) allProducts)
         (\<lambda>err.
            if job_id embeddingJob \<noteq> []
            then bindM (updateEmbeddingJob e (job_id embeddingJob)
                          (\<lambda>j. j\<lparr>status := FAILED, errorMessage := Some err,
                                  completedAt := Some (now e)\<rparr>))
                   (\<lambda>_. throw err)
            else throw err))))))"

text \<open>A computation that, when it returns, returns a value of the set.\<close>

definition returns_in :: "'a io \<Rightarrow> 'a set \<Rightarrow> bool" where
  "returns_in m S = (\<forall>w y w'. m w = (Inr y, w') \<longrightarrow> y \<in> S)"

text \<open>The sum of the three outcome counters.\<close>

definition counted :: "EmbeddingProgress \<Rightarrow> nat" where
  "counted pr = pg_successful pr + pg_failed pr + pg_skipped pr"

text \<open>The counters of a finished run add up.\<close>

definition balanced :: "EmbeddingProgress \<Rightarrow> bool" where
  "balanced pr \<longleftrightarrow>
     pg_processed pr = pg_successful pr + pg_failed pr + pg_skipped pr
     \<and> pg_processed pr = pg_total pr"

text \<open>The embedding columns of a catalog row that reconciliation maintains.\<close>

definition embedding_flags :: "product \<Rightarrow> bool \<times> string option" where
  "embedding_flags p = (hasEmbedding p, pineconeId p)"

section \<open>Concrete inputs\<close>

text \<open>An environment in which every service answers, with a two-dimensional embedding
  model and a similarity that is 1 on equal vectors.\<close>

definition env_ok :: env where
  "env_ok = \<lparr> fails = (\<lambda>c k. False),
              embeddings = (\<lambda>t. Some [1, 0]),
              llm_intent = (\<lambda>q. None),
              score = (\<lambda>a b. if a = b then 1 else 0),
              lowStockThreshold = Some 5,
              price_text = (\<lambda>x. ''0''),
              now = 7,
              fresh = (\<lambda>s. s) \<rparr>"

text \<open>The out-of-stock row of the seed data, as the argument of \<^verbatim>\<open>createProduct\<close>.\<close>

definition mug_data :: product_data where
  "mug_data = \<lparr> d_name = ''Ceramic Mug'', d_description = Some ''A mug'',
                d_sku = ''MUG-1'', d_price = 12, d_quantity = 0,
                d_category = Some ''Home'', d_brand = Some ''Acme'',
                d_imageUrl = None, d_tags = Some [''mug''], d_searchKeywords = None \<rparr>"

definition mug :: product where
  "mug = \<lparr> prod_id = ''id_MUG-1'', name = ''Ceramic Mug'', description = Some ''A mug'',
           sku = ''MUG-1'', price = 12, quantity = 0,
           category = Some ''Home'', brand = Some ''Acme'', imageUrl = None,
           pineconeId = Some ''product_pc_MUG-1'', hasEmbedding = False,
           lastEmbedded = None, isActive = True, tags = [''mug''],
           searchKeywords = None, createdAt = 7, updatedAt = 7 \<rparr>"

definition world_empty :: world where
  "world_empty = \<lparr> products = [], jobs = [], index = [] \<rparr>"

definition world_mug :: world where
  "world_mug = \<lparr> products = [mug], jobs = [], index = [] \<rparr>"

text \<open>A row that went out of stock while embedded, and its vector still in the index.\<close>

definition lamp :: product where
  "lamp = \<lparr> prod_id = ''id_LAMP-1'', name = ''Desk Lamp'', description = None,
            sku = ''LAMP-1'', price = 30, quantity = 0,
            category = Some ''Home'', brand = None, imageUrl = None,
            pineconeId = Some ''product_pc_LAMP-1'', hasEmbedding = True,
            lastEmbedded = Some 3, isActive = False, tags = [],
            searchKeywords = None, createdAt = 1, updatedAt = 4 \<rparr>"

definition world_lamp :: world where
  "world_lamp = \<lparr> products = [lamp], jobs = [],
                  index = [(''product_pc_LAMP-1'', \<lparr> v_values = [1, 0], v_metadata = None \<rparr>)] \<rparr>"

text \<open>An environment in which the embedding provider and the vector index are down.\<close>

definition env_down :: env where
  "env_down = env_ok\<lparr> fails := (\<lambda>c k. c = PineconeUpsert \<or> c = PineconeDelete),
                       embeddings := (\<lambda>t. None) \<rparr>"

definition restock :: "string \<Rightarrow> int \<Rightarrow> inventory_update_input" where
  "restock i q = \<lparr> iu_productId = i, iu_quantity = q, iu_updateEmbedding = True \<rparr>"

text \<open>An active, stocked row; the metadata \<^verbatim>\<open>upsertProduct\<close> builds for it and for the
  lamp; an index whose vectors carry metadata, the lamp's still saying active.\<close>

definition kettle :: product where
  "kettle = \<lparr> prod_id = ''id_KET-1'', name = ''Steel Kettle'', description = Some ''Boils water'',
              sku = ''KET-1'', price = 25, quantity = 4,
              category = Some ''Home'', brand = Some ''Acme'', imageUrl = None,
              pineconeId = Some ''product_pc_KET-1'', hasEmbedding = False,
              lastEmbedded = None, isActive = True, tags = [],
              searchKeywords = None, createdAt = 1, updatedAt = 2 \<rparr>"

definition world_kettle :: world where
  "world_kettle = \<lparr> products = [kettle], jobs = [], index = [] \<rparr>"

definition home_filter :: query_filter where
  "home_filter = empty_filter\<lparr> f_category := Some ''Home'' \<rparr>"

definition home_options :: search_options where
  "home_options = \<lparr> so_topK = None, so_minScore = None, so_filter = Some home_filter \<rparr>"

definition md_kettle :: product_metadata where
  "md_kettle = \<lparr> m_id = ''id_KET-1'', m_name = ''Steel Kettle'',
                 m_description = Some ''Boils water'', m_price = 25, m_quantity = 4,
                 m_category = Some ''Home'', m_brand = Some ''Acme'', m_sku = ''KET-1'',
                 m_isActive = True \<rparr>"

definition md_lamp :: product_metadata where
  "md_lamp = \<lparr> m_id = ''id_LAMP-1'', m_name = ''Desk Lamp'',
               m_description = Some [], m_price = 30, m_quantity = 0,
               m_category = Some ''Home'', m_brand = Some [], m_sku = ''LAMP-1'',
               m_isActive = True \<rparr>"

definition world_indexed :: world where
  "world_indexed = \<lparr> products = [kettle, lamp], jobs = [],
      index = [(''product_pc_LAMP-1'', \<lparr> v_values = [1, 0], v_metadata = Some md_lamp \<rparr>),
               (''product_pc_KET-1'', \<lparr> v_values = [1, 0], v_metadata = Some md_kettle \<rparr>)] \<rparr>"

definition find_home :: product_search_input where
  "find_home = \<lparr> ps_query = ''kettle'', ps_maxResults = 10, ps_category = Some ''Home'',
                 ps_minPrice = None, ps_maxPrice = Some 50, ps_brand = None,
                 ps_inStockOnly = True \<rparr>"

text \<open>A shop of three active rows, and an index that rejects the vase's vector.\<close>

definition vase :: product where
  "vase = \<lparr> prod_id = ''id_VASE-1'', name = ''Glass Vase'', description = Some ''Tall vase'',
            sku = ''VASE-1'', price = 18, quantity = 2,
            category = Some ''Home'', brand = None, imageUrl = None,
            pineconeId = Some ''product_pc_VASE-1'', hasEmbedding = False,
            lastEmbedded = None, isActive = True, tags = [''glass''],
            searchKeywords = None, createdAt = 1, updatedAt = 5 \<rparr>"

definition world_shop :: world where
  "world_shop = \<lparr> products = [kettle, mug, vase], jobs = [], index = [] \<rparr>"

definition env_flaky :: env where
  "env_flaky = env_ok\<lparr> fails := (\<lambda>c k. c = PineconeUpsert \<and> k = ''product_pc_VASE-1'') \<rparr>"

definition shop_progress :: EmbeddingProgress where
  "shop_progress = \<lparr> pg_total = 3, pg_processed = 3, pg_successful = 1, pg_failed = 1,
                      pg_skipped = 1, pg_startTime = 7 \<rparr>"



text \<open>Handlers that say which one answered.\<close>

definition tagged :: handlers where
  "tagged = \<lparr> handleProductSearch = (\<lambda>m. ''search: '' @ m),
              handleInventoryCheck = (\<lambda>m. ''inventory: '' @ m),
              handleGeneralChat = (\<lambda>m. ''chat: '' @ m) \<rparr>"

section \<open>Catalog store: properties\<close>

lemma findUnique_update_row:
  assumes "\<And>p. prod_id (f p) = prod_id p"
  shows "findUnique i (update_row j f rows) =
           (if i = j then map_option f (findUnique i rows) else findUnique i rows)"
  using assms by (induction rows) (auto simp: findUnique_def update_row_def)

lemma findUnique_append_fresh:
  "findUnique i rows = None \<Longrightarrow> findUnique i (rows @ [p]) = (if prod_id p = i then Some p else None)"
  by (induction rows) (auto simp: findUnique_def)

lemma findUnique_None_iff: "findUnique i rows = None \<longleftrightarrow> (\<forall>r \<in> set rows. prod_id r \<noteq> i)"
  by (induction rows) (auto simp: findUnique_def)

text \<open>
  C3. For every product id and every quantity \<open>q\<close>: when \<^verbatim>\<open>updateInventory(id, q)\<close>
  returns (it does not throw), the row it returns and the row stored under the id
  both have quantity \<open>q\<close> and \<open>isActive = (q > 0)\<close>.
\<close>

theorem updateInventory_isActive:
  assumes "updateInventory e i q w = (Inr p', w')"
  shows "findUnique i (products w') = Some p'
         \<and> isActive p' = (0 < q) \<and> quantity p' = q"
proof -
  from assms obtain p where p: "findUnique i (products w) = Some p"
    and p': "p' = p\<lparr>quantity := q, isActive := (0 < q), updatedAt := now e\<rparr>"
    and w': "w' = w\<lparr>products := update_row i
                 (\<lambda>p. p\<lparr>quantity := q, isActive := (0 < q), updatedAt := now e\<rparr>) (products w)\<rparr>"
    by (auto simp: updateInventory_def prisma_update_def split: if_splits option.splits)
  have "findUnique i (products w') = Some p'"
    unfolding w' p' by (simp add: findUnique_update_row p)
  then show ?thesis by (simp add: p')
qed

theorem updateInventory_isActive_witness:
  "updateInventory env_ok ''id_MUG-1'' 4 world_mug
     = (Inr (mug\<lparr>quantity := 4, isActive := True, updatedAt := 7\<rparr>),
        world_mug\<lparr>products := [mug\<lparr>quantity := 4, isActive := True, updatedAt := 7\<rparr>]\<rparr>)
   \<and> findUnique ''id_MUG-1'' [mug\<lparr>quantity := 4, isActive := True, updatedAt := 7\<rparr>]
       = Some (mug\<lparr>quantity := 4, isActive := True, updatedAt := 7\<rparr>)
   \<and> isActive (mug\<lparr>quantity := 4, isActive := True, updatedAt := 7\<rparr>) = ((0::int) < 4)"
proof -
  have h: "updateInventory env_ok ''id_MUG-1'' 4 world_mug
     = (Inr (mug\<lparr>quantity := 4, isActive := True, updatedAt := 7\<rparr>),
        world_mug\<lparr>products := [mug\<lparr>quantity := 4, isActive := True, updatedAt := 7\<rparr>]\<rparr>)"
    by (simp add: updateInventory_def prisma_update_def findUnique_def update_row_def
                  env_ok_def world_mug_def mug_def)
  from updateInventory_isActive [OF h] h show ?thesis by simp
qed

text \<open>
  C10. \<^verbatim>\<open>createProduct\<close> stores the schema default \<open>isActive = true\<close> whatever the
  supplied quantity is: the created row is stored as returned, keeps the supplied
  quantity, and is active; so with a quantity of 0 (or below) the row does not satisfy
  \<open>isActive = (quantity > 0)\<close>.
\<close>

theorem createProduct_isActive_default:
  assumes "createProduct e d w = (Inr p, w')"
  shows "isActive p \<and> quantity p = d_quantity d
         \<and> findUnique (prod_id p) (products w') = Some p
         \<and> (d_quantity d \<le> 0 \<longrightarrow> isActive p \<noteq> (0 < quantity p))"
proof -
  let ?i = "fresh e (''id_'' @ d_sku d)"
  from assms have fresh_id: "\<forall>r \<in> set (products w). prod_id r \<noteq> ?i"
    and act: "isActive p" and q: "quantity p = d_quantity d" and i: "prod_id p = ?i"
    and w': "products w' = products w @ [p]"
    by (auto simp: createProduct_def Let_def split: if_splits)
  from fresh_id have "findUnique ?i (products w) = None"
    by (simp add: findUnique_None_iff)
  then have "findUnique (prod_id p) (products w') = Some p"
    by (simp add: w' i findUnique_append_fresh)
  with act q show ?thesis by simp
qed

theorem createProduct_isActive_default_witness:
  "createProduct env_ok mug_data world_empty = (Inr mug, world_mug)
   \<and> isActive mug \<and> quantity mug = 0 \<and> d_quantity mug_data \<le> 0
   \<and> isActive mug \<noteq> (0 < quantity mug)"
proof -
  have h: "createProduct env_ok mug_data world_empty = (Inr mug, world_mug)"
    by (simp add: createProduct_def Let_def env_ok_def mug_data_def world_empty_def
                  world_mug_def mug_def)
  from createProduct_isActive_default [OF h] h show ?thesis
    by (simp add: mug_data_def)
qed

section \<open>Inventory tool: properties\<close>

lemmas io_defs = ret_def throw_def bindM_def catch_def

lemmas db_defs = getProduct_def updateInventory_def markProductEmbedded_def
  markProductNotEmbedded_def prisma_update_def

lemmas svc_defs = deleteProduct_def upsertProduct_def generateEmbedding_def

lemmas sample_defs = env_ok_def env_down_def world_mug_def mug_def world_lamp_def lamp_def
  restock_def world_empty_def mug_data_def

lemma index_upsert_idem: "index_upsert k v (index_upsert k v xs) = index_upsert k v xs"
  by (induction xs) auto

lemma index_delete_idem: "index_delete k (index_delete k xs) = index_delete k xs"
  by (simp add: index_delete_def)

lemma map_of_index_upsert: "map_of (index_upsert k v xs) k = Some v"
  by (induction xs) auto

text \<open>The embedding text reads none of the columns an inventory update writes.\<close>

lemma createProductEmbeddingText_cong:
  "createProductEmbeddingText (p\<lparr>quantity := q\<rparr>) = createProductEmbeddingText p"
  "createProductEmbeddingText (p\<lparr>isActive := a\<rparr>) = createProductEmbeddingText p"
  "createProductEmbeddingText (p\<lparr>updatedAt := t\<rparr>) = createProductEmbeddingText p"
  "createProductEmbeddingText (p\<lparr>hasEmbedding := h\<rparr>) = createProductEmbeddingText p"
  "createProductEmbeddingText (p\<lparr>lastEmbedded := l\<rparr>) = createProductEmbeddingText p"
  "createProductEmbeddingText (p\<lparr>pineconeId := c\<rparr>) = createProductEmbeddingText p"
  by (simp_all add: createProductEmbeddingText_def)

text \<open>\<^verbatim>\<open>executeInventoryUpdate\<close> catches everything: it always returns a result.\<close>

lemma executeInventoryUpdate_returns:
  "\<exists>res w'. executeInventoryUpdate e inp w = (Inr res, w')"
  by (auto simp: executeInventoryUpdate_def io_defs split: prod.splits sum.splits option.splits)

text \<open>
  C1. With a low-stock threshold of 5, a product whose quantity is 0 and an update to
  quantity 3: \<^verbatim>\<open>executeInventoryUpdate\<close> returns, and the embedding action it reports
  (when the update itself succeeded and a status change is reported) is
  \<^verbatim>\<open>'removed'\<close> or \<^verbatim>\<open>'none'\<close>, never \<^verbatim>\<open>'added'\<close>. The removal branch is taken before the
  became-active branch: the index afterwards is the index before, or the index before
  without the product's vector (nothing is upserted), and the embedding provider is not
  consulted (the outcome is the same whatever the embedding model is).
\<close>

theorem low_stock_update_never_adds:
  assumes "findUnique (iu_productId inp) (products w) = Some p"
    and "quantity p = 0" and "iu_quantity inp = 3" and "lowStockThreshold e = Some 5"
  shows "\<exists>res w'. executeInventoryUpdate e inp w = (Inr res, w')
          \<and> (case r_statusChange res of
                None \<Rightarrow> \<not> r_success res
              | Some sc \<Rightarrow> sc_embeddingAction sc = Removed \<or> sc_embeddingAction sc = NoAction)
          \<and> (index w' = index w
               \<or> (\<exists>pc. pineconeId p = Some pc \<and> index w' = index_delete pc (index w)))
          \<and> executeInventoryUpdate (e\<lparr>embeddings := g\<rparr>) inp w = executeInventoryUpdate e inp w"
  using assms
  by (auto simp: executeInventoryUpdate_def syncEmbedding_def io_defs db_defs svc_defs Let_def
           split: option.splits)

theorem low_stock_update_never_adds_witness:
  "executeInventoryUpdate env_ok (restock ''id_LAMP-1'' 3) world_lamp
     = (Inr \<lparr> r_success = True, r_productId = ''id_LAMP-1'', r_previousQuantity = 0,
              r_newQuantity = 3,
              r_statusChange = Some \<lparr> sc_wasActive = False, sc_isActive = True,
                                      sc_embeddingAction = Removed \<rparr>,
              r_error = None \<rparr>,
        \<lparr> products = [lamp\<lparr> quantity := 3, isActive := True, hasEmbedding := False,
                             lastEmbedded := None, updatedAt := 7 \<rparr>],
          jobs = [], index = [] \<rparr>)
   \<and> executeInventoryUpdate (env_ok\<lparr>embeddings := (\<lambda>t. None)\<rparr>) (restock ''id_LAMP-1'' 3) world_lamp
     = executeInventoryUpdate env_ok (restock ''id_LAMP-1'' 3) world_lamp"
proof -
  have h1: "findUnique (iu_productId (restock ''id_LAMP-1'' 3)) (products world_lamp) = Some lamp"
    by (simp add: findUnique_def sample_defs)
  have h2: "quantity lamp = 0" by (simp add: lamp_def)
  have h3: "iu_quantity (restock ''id_LAMP-1'' 3) = 3" by (simp add: restock_def)
  have h4: "lowStockThreshold env_ok = Some 5" by (simp add: env_ok_def)
  have run: "executeInventoryUpdate env_ok (restock ''id_LAMP-1'' 3) world_lamp
     = (Inr \<lparr> r_success = True, r_productId = ''id_LAMP-1'', r_previousQuantity = 0,
              r_newQuantity = 3,
              r_statusChange = Some \<lparr> sc_wasActive = False, sc_isActive = True,
                                      sc_embeddingAction = Removed \<rparr>,
              r_error = None \<rparr>,
        \<lparr> products = [lamp\<lparr> quantity := 3, isActive := True, hasEmbedding := False,
                             lastEmbedded := None, updatedAt := 7 \<rparr>],
          jobs = [], index = [] \<rparr>)"
    by (simp add: executeInventoryUpdate_def syncEmbedding_def io_defs db_defs svc_defs Let_def
                  findUnique_def update_row_def index_delete_def sample_defs)
  from low_stock_update_never_adds [OF h1 h2 h3 h4, of "\<lambda>t. None"] run show ?thesis by simp
qed

text \<open>
  C4, as amended. With a low-stock threshold of 5, a product whose stored
  \<open>isActive\<close> flag is false and whose quantity is 0, an update to quantity 10 that asks
  for embedding maintenance, and every service call succeeding (the embedding model
  returns a non-empty vector \<open>v\<close> for the product's text): \<^verbatim>\<open>executeInventoryUpdate\<close>
  reports \<^verbatim>\<open>'added'\<close> with \<open>wasActive = false\<close> and \<open>isActive = true\<close>, the index holds
  \<open>v\<close> under the product's vector id, and the stored row is marked embedded at the
  current time. \<open>wasActive\<close> is the stored flag of the row before the update, not a
  comparison of the previous quantity with 0.
\<close>

theorem restock_inactive_product_adds:
  assumes "findUnique (iu_productId inp) (products w) = Some p"
    and "\<not> isActive p" and "quantity p = 0"
    and "iu_quantity inp = 10" and "lowStockThreshold e = Some 5"
    and "iu_updateEmbedding inp"
    and "\<forall>c k. \<not> fails e c k"
    and "embeddings e (createProductEmbeddingText p) = Some v" and "v \<noteq> []"
  shows "\<exists>res w'. executeInventoryUpdate e inp w = (Inr res, w')
          \<and> r_success res
          \<and> r_statusChange res = Some \<lparr> sc_wasActive = False, sc_isActive = True,
                                         sc_embeddingAction = Added \<rparr>
          \<and> map_of (index w') (or_else (pineconeId p) (prod_id p))
              = Some \<lparr> v_values = v, v_metadata = None \<rparr>
          \<and> (\<exists>p'. findUnique (iu_productId inp) (products w') = Some p'
                    \<and> hasEmbedding p' \<and> lastEmbedded p' = Some (now e)
                    \<and> quantity p' = 10 \<and> isActive p')"
  using assms
  by (auto simp: executeInventoryUpdate_def syncEmbedding_def io_defs db_defs svc_defs Let_def
           findUnique_update_row map_of_index_upsert createProductEmbeddingText_cong
           split: option.splits)

theorem restock_inactive_product_adds_witness:
  "\<exists>res w'. executeInventoryUpdate env_ok (restock ''id_LAMP-1'' 10) world_lamp = (Inr res, w')
      \<and> r_success res
      \<and> r_statusChange res = Some \<lparr> sc_wasActive = False, sc_isActive = True,
                                     sc_embeddingAction = Added \<rparr>
      \<and> map_of (index w') ''product_pc_LAMP-1'' = Some \<lparr> v_values = [1, 0], v_metadata = None \<rparr>
      \<and> (\<exists>p'. findUnique ''id_LAMP-1'' (products w') = Some p'
                \<and> hasEmbedding p' \<and> lastEmbedded p' = Some 7
                \<and> quantity p' = 10 \<and> isActive p')"
proof -
  have h1: "findUnique (iu_productId (restock ''id_LAMP-1'' 10)) (products world_lamp) = Some lamp"
    by (simp add: findUnique_def sample_defs)
  have h2: "\<not> isActive lamp" by (simp add: lamp_def)
  have h3: "quantity lamp = 0" by (simp add: lamp_def)
  have h4: "iu_quantity (restock ''id_LAMP-1'' 10) = 10" by (simp add: restock_def)
  have h5: "lowStockThreshold env_ok = Some 5" by (simp add: env_ok_def)
  have h6: "iu_updateEmbedding (restock ''id_LAMP-1'' 10)" by (simp add: restock_def)
  have h7: "\<forall>c k. \<not> fails env_ok c k" by (simp add: env_ok_def)
  have h8: "embeddings env_ok (createProductEmbeddingText lamp) = Some [1, 0]"
    by (simp add: env_ok_def)
  have h9: "[1, 0] \<noteq> ([] :: embedding)" by simp
  from restock_inactive_product_adds [OF h1 h2 h3 h4 h5 h6 h7 h8 h9]
  show ?thesis by (simp add: restock_def lamp_def env_ok_def)
qed

text \<open>
  The claim as stated fails on a freshly created product: \<^verbatim>\<open>createProduct\<close> with
  quantity 0 stores \<open>isActive = true\<close>, so at the update to 10 \<open>wasActive\<close> is true, the
  became-active branch is not taken, and with no embedding yet the action is
  \<^verbatim>\<open>'none'\<close>: nothing is embedded or upserted.
\<close>

theorem restock_fresh_product_counterexample:
  "createProduct env_ok mug_data world_empty = (Inr mug, world_mug)
   \<and> quantity mug = 0
   \<and> executeInventoryUpdate env_ok (restock ''id_MUG-1'' 10) world_mug
     = (Inr \<lparr> r_success = True, r_productId = ''id_MUG-1'', r_previousQuantity = 0,
              r_newQuantity = 10,
              r_statusChange = Some \<lparr> sc_wasActive = True, sc_isActive = True,
                                      sc_embeddingAction = NoAction \<rparr>,
              r_error = None \<rparr>,
        \<lparr> products = [mug\<lparr> quantity := 10, isActive := True, updatedAt := 7 \<rparr>],
          jobs = [], index = [] \<rparr>)"
  by (simp add: createProduct_def executeInventoryUpdate_def syncEmbedding_def io_defs db_defs
                svc_defs Let_def findUnique_def update_row_def sample_defs)

text \<open>
  C5. Whenever the product exists and the catalog read and the quantity write go
  through, \<^verbatim>\<open>executeInventoryUpdate\<close> returns \<open>success = true\<close> with the previous and
  the new quantity and no error, and the stored row has the new quantity, whatever the
  embedding provider, the vector index and the embedding-flag writes do afterwards:
  their errors are caught inside the update and the quantity write is not undone.
\<close>

theorem embedding_errors_do_not_fail_update:
  assumes "findUnique (iu_productId inp) (products w) = Some p"
    and "\<not> fails e DbGetProduct (iu_productId inp)"
    and "\<not> fails e DbUpdateInventory (iu_productId inp)"
  shows "\<exists>res w'. executeInventoryUpdate e inp w = (Inr res, w')
          \<and> r_success res \<and> r_error res = None
          \<and> r_previousQuantity res = quantity p \<and> r_newQuantity res = iu_quantity inp
          \<and> (\<exists>p'. findUnique (iu_productId inp) (products w') = Some p'
                    \<and> quantity p' = iu_quantity inp)"
  using assms
  by (auto simp: executeInventoryUpdate_def syncEmbedding_def io_defs db_defs svc_defs Let_def
           findUnique_update_row
           split: option.splits)

theorem embedding_errors_do_not_fail_update_witness:
  "embeddings env_down (createProductEmbeddingText lamp) = None
   \<and> fails env_down PineconeUpsert ''product_pc_LAMP-1''
   \<and> (\<exists>res w'. executeInventoryUpdate env_down (restock ''id_LAMP-1'' 10) world_lamp = (Inr res, w')
          \<and> r_success res \<and> r_error res = None
          \<and> r_previousQuantity res = 0 \<and> r_newQuantity res = 10
          \<and> (\<exists>p'. findUnique ''id_LAMP-1'' (products w') = Some p' \<and> quantity p' = 10))"
proof -
  have h1: "findUnique (iu_productId (restock ''id_LAMP-1'' 10)) (products world_lamp) = Some lamp"
    by (simp add: findUnique_def sample_defs)
  have h2: "\<not> fails env_down DbGetProduct (iu_productId (restock ''id_LAMP-1'' 10))"
    by (simp add: env_down_def env_ok_def)
  have h3: "\<not> fails env_down DbUpdateInventory (iu_productId (restock ''id_LAMP-1'' 10))"
    by (simp add: env_down_def env_ok_def)
  from embedding_errors_do_not_fail_update [OF h1 h2 h3]
  show ?thesis by (simp add: restock_def lamp_def env_down_def env_ok_def)
qed

text \<open>
  C7. Running \<^verbatim>\<open>executeInventoryUpdate\<close> a second time with the same product id and
  quantity, on the state the first run left and against services that behave as in the
  first run (same embedding model, same failing calls; the clock may have advanced),
  changes neither the vector index nor the embedding flags \<open>hasEmbedding\<close> and
  \<open>pineconeId\<close> of any catalog row.
\<close>

theorem executeInventoryUpdate_idempotent:
  "\<exists>r1 w1 r2 w2.
      executeInventoryUpdate e inp w = (Inr r1, w1)
    \<and> executeInventoryUpdate (e\<lparr>now := t\<rparr>) inp w1 = (Inr r2, w2)
    \<and> index w2 = index w1
    \<and> (\<forall>i. map_option embedding_flags (findUnique i (products w2))
           = map_option embedding_flags (findUnique i (products w1)))"
  by (auto simp: executeInventoryUpdate_def syncEmbedding_def io_defs db_defs svc_defs Let_def
           findUnique_update_row index_upsert_idem index_delete_idem
           createProductEmbeddingText_cong embedding_flags_def
           split: option.splits)

section \<open>Search: properties\<close>

lemma index_query_matches:
  "m \<in> set (index_query e idx vec k f) \<Longrightarrow>
     metadata_matches f (qm_metadata m)
     \<and> (\<exists>ent. (qm_id m, ent) \<in> set idx \<and> v_metadata ent = qm_metadata m)"
  by (auto simp: index_query_def dest!: in_set_takeD) blast

lemma searchProducts_matches:
  assumes "searchProducts e vec opts w = (Inr rs, w')" and "r \<in> set rs"
  shows "w' = w
         \<and> metadata_matches (merge_filter defaultFilter
              (case so_filter opts of None \<Rightarrow> empty_filter | Some f \<Rightarrow> f)) (sr_metadata r)
         \<and> (\<exists>ent. (sr_id r, ent) \<in> set (index w) \<and> v_metadata ent = sr_metadata r)"
  using assms
  by (auto simp: searchProducts_def Let_def split: if_splits dest!: index_query_matches) blast

text \<open>The merged filter always constrains \<^verbatim>\<open>isActive\<close>, so a vector without metadata
  never matches it.\<close>

lemma merged_isActive: "f_isActive (merge_filter defaultFilter f) \<noteq> None"
  by (cases "f_isActive f") (simp_all add: merge_filter_def defaultFilter_def empty_filter_def)

lemma matches_has_metadata:
  "metadata_matches (merge_filter defaultFilter f) md \<Longrightarrow> md \<noteq> None"
  using merged_isActive [of f]
  by (cases md; cases "f_isActive (merge_filter defaultFilter f)")
     (auto simp: metadata_matches_def)

lemma matches_quantity:
  "f_quantity f = Some n \<Longrightarrow> metadata_matches (merge_filter defaultFilter f) md \<Longrightarrow>
     \<exists>m. md = Some m \<and> n < m_quantity m"
  by (cases md) (auto simp: metadata_matches_def merge_filter_def)

lemma format_results_sound:
  "format_results rs = Inr ps \<Longrightarrow> p \<in> set ps \<Longrightarrow> \<exists>r \<in> set rs. format_result r = Inr p"
  by (induction rs arbitrary: ps) (auto split: sum.splits)

lemma format_result_quantity:
  "format_result r = Inr p \<Longrightarrow> \<exists>m. sr_metadata r = Some m \<and> fp_quantity p = m_quantity m"
  by (auto simp: format_result_def split: option.splits)

lemma executeProductSearch_cases:
  "executeProductSearch e inp w = (Inr res, w') \<Longrightarrow>
     w' = w \<and>
     (psr_products res = [] \<or>
      (\<exists>emb rs. searchProducts e emb
                    \<lparr> so_topK = Some (ps_maxResults inp), so_minScore = Some (6 / 10),
                      so_filter = Some (buildSearchFilters inp
                                          (extractSearchIntent e (ps_query inp))) \<rparr> w
                  = (Inr rs, w)
                \<and> format_results rs = Inr (psr_products res)))"
  by (auto simp: executeProductSearch_def io_defs lift_def Let_def generateEmbedding_def
                 searchProducts_def
           split: option.splits if_splits sum.splits prod.splits)

text \<open>\<^verbatim>\<open>executeProductSearch\<close> catches everything and writes nothing.\<close>

lemma executeProductSearch_returns:
  "\<exists>res. executeProductSearch e inp w = (Inr res, w)"
  by (auto simp: executeProductSearch_def io_defs lift_def Let_def generateEmbedding_def
                 searchProducts_def
           split: option.splits if_splits sum.splits prod.splits)

lemma index_upsert_key:
  "distinct (map fst xs) \<Longrightarrow> (k, v') \<in> set (index_upsert k v xs) \<Longrightarrow> v' = v"
  by (induction xs) (auto split: if_splits simp: rev_image_eqI)

text \<open>
  C8. For every query and every combination of category, brand and price filters (explicit
  or inferred), with \<open>inStockOnly = true\<close> the filter \<^verbatim>\<open>executeProductSearch\<close> sends to the
  index has \<^verbatim>\<open>quantity > 0\<close> and \<^verbatim>\<open>isActive = true\<close>, the search returns, and every
  product it returns has a quantity above 0 (the quantity the index holds for it).
\<close>

theorem in_stock_only_excludes_out_of_stock:
  assumes "ps_inStockOnly inp"
  shows "\<exists>res. executeProductSearch e inp w = (Inr res, w)
           \<and> (\<forall>p \<in> set (psr_products res). 0 < fp_quantity p)
           \<and> f_quantity (buildSearchFilters inp (extractSearchIntent e (ps_query inp))) = Some 0
           \<and> f_isActive (buildSearchFilters inp (extractSearchIntent e (ps_query inp))) = Some True"
proof -
  let ?f = "buildSearchFilters inp (extractSearchIntent e (ps_query inp))"
  obtain res where res: "executeProductSearch e inp w = (Inr res, w)"
    using executeProductSearch_returns by blast
  have fq: "f_quantity ?f = Some 0" and fa: "f_isActive ?f = Some True"
    using assms by (simp_all add: buildSearchFilters_def)
  have "0 < fp_quantity p" if p: "p \<in> set (psr_products res)" for p
  proof -
    from p have "psr_products res \<noteq> []" by auto
    with executeProductSearch_cases [OF res] obtain emb rs where
      sp: "searchProducts e emb \<lparr> so_topK = Some (ps_maxResults inp), so_minScore = Some (6 / 10),
                      so_filter = Some ?f \<rparr> w = (Inr rs, w)"
      and fr: "format_results rs = Inr (psr_products res)" by blast
    from format_results_sound [OF fr p] obtain r where r: "r \<in> set rs" "format_result r = Inr p"
      by blast
    from searchProducts_matches [OF sp r(1)]
    have "metadata_matches (merge_filter defaultFilter ?f) (sr_metadata r)" by simp
    from matches_quantity [OF fq this] obtain m where "sr_metadata r = Some m" "0 < m_quantity m"
      by blast
    with format_result_quantity [OF r(2)] show ?thesis by auto
  qed
  with res fq fa show ?thesis by blast
qed

theorem in_stock_only_excludes_out_of_stock_witness:
  "ps_inStockOnly find_home
   \<and> executeProductSearch env_ok find_home world_indexed
     = (Inr \<lparr> psr_success = True,
               psr_products = [\<lparr> fp_id = ''id_KET-1'', fp_name = ''Steel Kettle'',
                   fp_description = ''Boils water'', fp_price = 25, fp_quantity = 4,
                   fp_category = Some ''Home'', fp_brand = Some ''Acme'', fp_sku = ''KET-1'',
                   fp_relevanceScore = 1 \<rparr>],
               psr_totalFound = 1, psr_searchTerms = ''kettle'', psr_error = None \<rparr>,
        world_indexed)
   \<and> (\<exists>res. executeProductSearch env_ok find_home world_indexed = (Inr res, world_indexed)
         \<and> (\<forall>p \<in> set (psr_products res). 0 < fp_quantity p))"
proof -
  have h: "ps_inStockOnly find_home" by (simp add: find_home_def)
  have run: "executeProductSearch env_ok find_home world_indexed
     = (Inr \<lparr> psr_success = True,
               psr_products = [\<lparr> fp_id = ''id_KET-1'', fp_name = ''Steel Kettle'',
                   fp_description = ''Boils water'', fp_price = 25, fp_quantity = 4,
                   fp_category = Some ''Home'', fp_brand = Some ''Acme'', fp_sku = ''KET-1'',
                   fp_relevanceScore = 1 \<rparr>],
               psr_totalFound = 1, psr_searchTerms = ''kettle'', psr_error = None \<rparr>,
        world_indexed)"
    by (simp add: executeProductSearch_def io_defs lift_def Let_def generateEmbedding_def
                  extractSearchIntent_def buildSearchFilters_def price_bound_def
                  searchProducts_def index_query_def metadata_matches_def price_in_range_def
                  merge_filter_def defaultFilter_def empty_filter_def format_result_def
                  round2_def env_ok_def find_home_def world_indexed_def md_kettle_def
                  md_lamp_def)
  from in_stock_only_excludes_out_of_stock [OF h, of env_ok world_indexed] h run
  show ?thesis by blast
qed

text \<open>
  C2, what the code does. After \<^verbatim>\<open>upsertProduct(P, v)\<close> on an index with one vector per
  id, the vector stored for \<open>P\<close> has the embedding \<open>v\<close> and no metadata (the metadata
  object is built and left out of the upsert), and no \<^verbatim>\<open>searchProducts\<close> query with the
  vector \<open>v\<close>, whatever its options and filter, returns \<open>P\<close>'s vector: every query carries
  a predicate on \<^verbatim>\<open>isActive\<close>, which a vector without metadata does not satisfy. The
  results a search does return all carry metadata.
\<close>

theorem upsert_then_search_misses_product:
  assumes "distinct (map fst (index w))"
    and "upsertProduct e p v w = (Inr ok, w1)"
    and "searchProducts e v opts w1 = (Inr rs, w2)"
  shows "map_of (index w1) (or_else (pineconeId p) (prod_id p))
           = Some \<lparr> v_values = v, v_metadata = None \<rparr>
         \<and> or_else (pineconeId p) (prod_id p) \<notin> sr_id ` set rs
         \<and> (\<forall>r \<in> set rs. sr_metadata r \<noteq> None)"
proof -
  let ?k = "or_else (pineconeId p) (prod_id p)"
  let ?ent = "\<lparr> v_values = v, v_metadata = None \<rparr>"
  from assms(2) have w1: "index w1 = index_upsert ?k ?ent (index w)"
    by (auto simp: upsertProduct_def Let_def split: if_splits)
  have md: "sr_metadata r \<noteq> None" if "r \<in> set rs" for r
    using searchProducts_matches [OF assms(3) that] matches_has_metadata by blast
  have "sr_id r \<noteq> ?k" if r: "r \<in> set rs" for r
  proof
    assume k: "sr_id r = ?k"
    from searchProducts_matches [OF assms(3) r] obtain ent where
      ent: "(sr_id r, ent) \<in> set (index w1)" "v_metadata ent = sr_metadata r" by blast
    from ent(1) have "ent = ?ent"
      unfolding k w1 using index_upsert_key [OF assms(1)] by blast
    with ent(2) md [OF r] show False by simp
  qed
  then have "?k \<notin> sr_id ` set rs" by (metis imageE)
  moreover have "map_of (index w1) ?k = Some ?ent" by (simp add: w1 map_of_index_upsert)
  ultimately show ?thesis using md by blast
qed

theorem upsert_then_search_misses_product_witness:
  "upsertProduct env_ok kettle [1, 0] world_kettle
     = (Inr True, world_kettle\<lparr> index := [(''product_pc_KET-1'',
                                             \<lparr> v_values = [1, 0], v_metadata = None \<rparr>)] \<rparr>)
   \<and> searchProducts env_ok [1, 0] home_options
        (world_kettle\<lparr> index := [(''product_pc_KET-1'',
                                    \<lparr> v_values = [1, 0], v_metadata = None \<rparr>)] \<rparr>)
     = (Inr [], world_kettle\<lparr> index := [(''product_pc_KET-1'',
                                           \<lparr> v_values = [1, 0], v_metadata = None \<rparr>)] \<rparr>)
   \<and> or_else (pineconeId kettle) (prod_id kettle) \<notin> sr_id ` set []"
proof -
  let ?w1 = "world_kettle\<lparr> index := [(''product_pc_KET-1'',
                                       \<lparr> v_values = [1, 0], v_metadata = None \<rparr>)] \<rparr>"
  have h1: "distinct (map fst (index world_kettle))" by (simp add: world_kettle_def)
  have h2: "upsertProduct env_ok kettle [1, 0] world_kettle = (Inr True, ?w1)"
    by (simp add: upsertProduct_def Let_def env_ok_def kettle_def world_kettle_def)
  have h3: "searchProducts env_ok [1, 0] home_options ?w1 = (Inr [], ?w1)"
    by (simp add: searchProducts_def Let_def env_ok_def index_query_def metadata_matches_def
                  merge_filter_def defaultFilter_def empty_filter_def home_filter_def
                  home_options_def)
  from upsert_then_search_misses_product [OF h1 h2 h3] h2 h3 show ?thesis by simp
qed

section \<open>Conversational router: properties\<close>

lemmas router_defs = requiresProductSearch_def requiresInventoryCheck_def search_keywords_def
  inventory_keywords_def toLowerCase_def to_lower_char_def

text \<open>
  C9, as amended. A message that matches the search keywords is answered by the product
  search, also when it matches the inventory keywords too (a tie goes to the search);
  a message that matches only the inventory keywords is answered by the inventory
  check; a message that matches neither set is answered by the plain chat completion.
\<close>

theorem processMessage_dispatch:
  "(requiresProductSearch m \<and> requiresInventoryCheck m
      \<longrightarrow> fst (processMessage h m hist) = handleProductSearch h m)
   \<and> (requiresProductSearch m \<and> \<not> requiresInventoryCheck m
      \<longrightarrow> fst (processMessage h m hist) = handleProductSearch h m)
   \<and> (\<not> requiresProductSearch m \<and> requiresInventoryCheck m
      \<longrightarrow> fst (processMessage h m hist) = handleInventoryCheck h m)
   \<and> (\<not> requiresProductSearch m \<and> \<not> requiresInventoryCheck m
      \<longrightarrow> fst (processMessage h m hist) = handleGeneralChat h m)"
  by (simp add: processMessage_def Let_def)

theorem processMessage_dispatch_witness:
  "(requiresProductSearch ''Is it Available?'' \<and> requiresInventoryCheck ''Is it Available?'')
   \<and> fst (processMessage tagged ''Is it Available?'' []) = ''search: Is it Available?''
   \<and> (requiresProductSearch ''Find a kettle'' \<and> \<not> requiresInventoryCheck ''Find a kettle'')
   \<and> fst (processMessage tagged ''Find a kettle'' []) = ''search: Find a kettle''
   \<and> (\<not> requiresProductSearch ''How many?'' \<and> requiresInventoryCheck ''How many?'')
   \<and> fst (processMessage tagged ''How many?'' []) = ''inventory: How many?''
   \<and> (\<not> requiresProductSearch ''Hello'' \<and> \<not> requiresInventoryCheck ''Hello'')
   \<and> fst (processMessage tagged ''Hello'' []) = ''chat: Hello''"
proof -
  have a: "requiresProductSearch ''Is it Available?'' \<and> requiresInventoryCheck ''Is it Available?''"
    by (simp add: router_defs)
  have b: "requiresProductSearch ''Find a kettle'' \<and> \<not> requiresInventoryCheck ''Find a kettle''"
    by (simp add: router_defs)
  have c: "\<not> requiresProductSearch ''How many?'' \<and> requiresInventoryCheck ''How many?''"
    by (simp add: router_defs)
  have d: "\<not> requiresProductSearch ''Hello'' \<and> \<not> requiresInventoryCheck ''Hello''"
    by (simp add: router_defs)
  from a b c d
    processMessage_dispatch [of "''Is it Available?''" tagged "[]"]
    processMessage_dispatch [of "''Find a kettle''" tagged "[]"]
    processMessage_dispatch [of "''How many?''" tagged "[]"]
    processMessage_dispatch [of "''Hello''" tagged "[]"]
  show ?thesis by (simp add: tagged_def)
qed

text \<open>
  The claim as stated fails on a tie: ``Is it Available?'' matches the keyword
  \<^verbatim>\<open>available\<close> of both sets and is answered by the product search, not by the chat
  completion.
\<close>

theorem tie_counterexample:
  "requiresProductSearch ''Is it Available?''
   \<and> requiresInventoryCheck ''Is it Available?''
   \<and> fst (processMessage tagged ''Is it Available?'' []) = handleProductSearch tagged ''Is it Available?''
   \<and> fst (processMessage tagged ''Is it Available?'' []) \<noteq> handleGeneralChat tagged ''Is it Available?''"
  by (simp add: processMessage_def Let_def router_defs tagged_def)

section \<open>Bulk embedding job: properties\<close>

lemma returns_inD: "returns_in m S \<Longrightarrow> m w = (Inr y, w') \<Longrightarrow> y \<in> S"
  unfolding returns_in_def by blast

lemma returns_in_ret: "x \<in> S \<Longrightarrow> returns_in (ret x) S"
  by (simp add: returns_in_def ret_def)

lemma returns_in_throw: "returns_in (throw err) S"
  by (simp add: returns_in_def throw_def)

lemma returns_in_bindM: "(\<And>x. returns_in (f x) S) \<Longrightarrow> returns_in (bindM m f) S"
  by (auto simp: returns_in_def bindM_def split: prod.splits sum.splits)

lemma returns_in_if: "returns_in a S \<Longrightarrow> returns_in b S \<Longrightarrow> returns_in (if c then a else b) S"
  by simp

lemma tryProcessProduct_returns:
  "returns_in (tryProcessProduct e p pr)
     {(True, pr\<lparr>pg_skipped := pg_skipped pr + 1\<rparr>),
      (True, pr\<lparr>pg_successful := pg_successful pr + 1\<rparr>)}"
  unfolding tryProcessProduct_def Let_def
  by (intro returns_in_if returns_in_bindM returns_in_throw returns_in_ret) simp_all

lemma processProductEmbedding_one:
  "\<exists>ok pr' w'. processProductEmbedding e p pr w = (Inr (ok, pr'), w')
      \<and> (pr' = pr\<lparr>pg_successful := pg_successful pr + 1\<rparr>
         \<or> pr' = pr\<lparr>pg_failed := pg_failed pr + 1\<rparr>
         \<or> pr' = pr\<lparr>pg_skipped := pg_skipped pr + 1\<rparr>)"
proof (cases "tryProcessProduct e p pr w")
  case (Pair r w1)
  show ?thesis
  proof (cases r)
    case (Inl err)
    with Pair show ?thesis by (auto simp: processProductEmbedding_def catch_def ret_def)
  next
    case (Inr y)
    with Pair have "tryProcessProduct e p pr w = (Inr y, w1)" by simp
    from returns_inD [OF tryProcessProduct_returns this]
    have "y = (True, pr\<lparr>pg_skipped := pg_skipped pr + 1\<rparr>)
          \<or> y = (True, pr\<lparr>pg_successful := pg_successful pr + 1\<rparr>)"
      by simp
    with Pair Inr show ?thesis by (auto simp: processProductEmbedding_def catch_def)
  qed
qed

lemma processProductEmbedding_counts:
  assumes "processProductEmbedding e p pr w = (r, w')"
  shows "\<exists>ok pr'. r = Inr (ok, pr') \<and> counted pr' = counted pr + 1
           \<and> pg_processed pr' = pg_processed pr \<and> pg_total pr' = pg_total pr"
  using processProductEmbedding_one [of e p pr w] assms
  by (auto simp: counted_def)

lemma process_batch_counts:
  "process_batch e j ps pr w = (Inr pr', w') \<Longrightarrow>
     counted pr' = counted pr + length ps
     \<and> pg_processed pr' = pg_processed pr + length ps \<and> pg_total pr' = pg_total pr"
proof (induction ps arbitrary: pr w)
  case Nil
  then show ?case by simp
next
  case (Cons p ps)
  obtain r w1 where step: "processProductEmbedding e p pr w = (r, w1)"
    by (cases "processProductEmbedding e p pr w")
  from processProductEmbedding_counts [OF step] obtain ok pr1 where
    r: "r = Inr (ok, pr1)" and c: "counted pr1 = counted pr + 1"
    "pg_processed pr1 = pg_processed pr" "pg_total pr1 = pg_total pr" by blast
  let ?pr2 = "pr1\<lparr>pg_processed := pg_processed pr1 + 1\<rparr>"
  from Cons.prems step r obtain w2 where
    rest: "process_batch e j ps ?pr2 w2 = (Inr pr', w')"
    by (auto split: if_splits prod.splits sum.splits)
  from Cons.IH [OF rest] c show ?case by (simp add: counted_def)
qed

lemma process_batches_counts:
  "process_batches e j all i pr w = (Inr pr', w') \<Longrightarrow>
     counted pr' = counted pr + (length all - i)
     \<and> pg_processed pr' = pg_processed pr + (length all - i) \<and> pg_total pr' = pg_total pr"
proof (induction e j all i pr w rule: process_batches.induct)
  case (1 e j all i pr w)
  show ?case
  proof (cases "i < length all")
    case False
    with "1.prems" show ?thesis by simp
  next
    case True
    with "1.prems" obtain pr1 w1 where
      b: "process_batch e j (take 5 (drop i all)) pr w = (Inr pr1, w1)"
      and rest: "process_batches e j all (i + 5) pr1 w1 = (Inr pr', w')"
      by (auto split: prod.splits sum.splits)
    from "1.IH" [OF True b [symmetric] refl rest] process_batch_counts [OF b] True
    show ?thesis by (auto simp: min_def)
  qed
qed

lemma returns_in_seq:
  assumes "returns_in m S" and "\<And>x. x \<in> S \<Longrightarrow> returns_in (f x) T"
  shows "returns_in (bindM m f) T"
  unfolding returns_in_def
proof (intro allI impI)
  fix w y w'
  assume "bindM m f w = (Inr y, w')"
  then obtain x w1 where m: "m w = (Inr x, w1)" and f: "f x w1 = (Inr y, w')"
    by (auto simp: bindM_def split: prod.splits sum.splits)
  from returns_inD [OF assms(1) m] have "x \<in> S" .
  from returns_inD [OF assms(2) [OF this] f] show "y \<in> T" .
qed

lemma returns_in_catch:
  "returns_in m S \<Longrightarrow> (\<And>err. returns_in (h err) S) \<Longrightarrow> returns_in (catch m h) S"
  by (auto simp: returns_in_def catch_def split: prod.splits sum.splits)

lemma process_batches_returns:
  "returns_in (process_batches e j all 0
        \<lparr> pg_total = length all, pg_processed = 0, pg_successful = 0,
          pg_failed = 0, pg_skipped = 0, pg_startTime = t \<rparr>) {pr. balanced pr}"
  unfolding returns_in_def
proof (intro allI impI)
  fix w y w'
  assume "process_batches e j all 0
        \<lparr> pg_total = length all, pg_processed = 0, pg_successful = 0,
          pg_failed = 0, pg_skipped = 0, pg_startTime = t \<rparr> w = (Inr y, w')"
  from process_batches_counts [OF this] show "y \<in> {pr. balanced pr}"
    by (simp add: counted_def balanced_def)
qed

lemma run_job_returns:
  "returns_in (run_job e j all) {r. \<forall>pr. r = Some pr \<longrightarrow> balanced pr}"
  unfolding run_job_def
  by (intro returns_in_seq [OF process_batches_returns] returns_in_bindM returns_in_ret) simp

lemma generateFullEmbeddings_returns:
  "returns_in (generateFullEmbeddings e) {r. \<forall>pr. r = Some pr \<longrightarrow> balanced pr}"
  unfolding generateFullEmbeddings_def
  by (intro returns_in_bindM returns_in_if returns_in_catch run_job_returns returns_in_throw
            returns_in_ret) simp

text \<open>
  C6. Whenever \<^verbatim>\<open>generateFullEmbeddings\<close> runs to completion (it returns its progress
  record, no fatal error having been thrown), the counters satisfy
  \<open>processed = successful + failed + skipped\<close> and \<open>processed = total\<close>: each call of
  \<^verbatim>\<open>processProductEmbedding\<close> returns with exactly one of the three outcome counters
  incremented, and the loop over the batches increments \<open>processed\<close> once per fetched
  product.
\<close>

theorem bulk_job_counters:
  assumes "generateFullEmbeddings e w = (Inr (Some progress), w')"
  shows "pg_processed progress = pg_successful progress + pg_failed progress + pg_skipped progress
         \<and> pg_processed progress = pg_total progress"
  using returns_inD [OF generateFullEmbeddings_returns assms]
  by (simp add: balanced_def)

theorem bulk_job_counters_witness:
  "fst (generateFullEmbeddings env_flaky world_shop) = Inr (Some shop_progress)
   \<and> pg_processed shop_progress
       = pg_successful shop_progress + pg_failed shop_progress + pg_skipped shop_progress
   \<and> pg_processed shop_progress = pg_total shop_progress
   \<and> pg_successful shop_progress = 1 \<and> pg_failed shop_progress = 1
   \<and> pg_skipped shop_progress = 1"
proof -
  have run: "fst (generateFullEmbeddings env_flaky world_shop) = Inr (Some shop_progress)"
    by (simp add: generateFullEmbeddings_def run_job_def getAllProducts_def io_defs
                  ext_step_def createEmbeddingJob_def updateEmbeddingJob_def Let_def
                  processProductEmbedding_def tryProcessProduct_def
                  createProductEmbeddingText_script_def trim_def is_space_def
                  generateEmbedding_def upsertProduct_def markProductEmbedded_def
                  prisma_update_def findUnique_def update_row_def
                  env_flaky_def env_ok_def world_shop_def kettle_def mug_def vase_def
                  shop_progress_def)
  then have h: "generateFullEmbeddings env_flaky world_shop
                = (Inr (Some shop_progress), snd (generateFullEmbeddings env_flaky world_shop))"
    by (simp add: prod_eq_iff)
  from bulk_job_counters [OF h] run show ?thesis by (simp add: shop_progress_def)
qed

end
